theory Spec2Isabelle
  imports Complex_Main
begin

section \<open>Values, exceptions and strings\<close>

text \<open>
  The backend is a Flask application (\<^verbatim>\<open>src/backend/app.py\<close>) in front of an
  agent runtime, with a prompt builder that runs once at import time
  (\<^verbatim>\<open>src/data_agent/instructions.py\<close>).

  A Python \<^verbatim>\<open>str\<close> is modelled as the list of its UTF-8 bytes. The only
  character tests of the code are against ASCII characters (the control class
  of \<^verbatim>\<open>sanitize_for_log\<close>, the separator \<^verbatim>\<open>/\<close>), and no byte of a multi-byte
  UTF-8 sequence is ASCII, so a test per byte is the test per character.

  A parsed JSON body is a value of \<open>json\<close>: \<open>JNull\<close> is Python's \<^verbatim>\<open>None\<close>, and
  \<open>JObj\<close> lists the items of a \<^verbatim>\<open>dict\<close>. JSON numbers are restricted to
  integers.
\<close>

datatype json =
    JNull
  | JBool bool
  | JInt int
  | JStr string
  | JList "json list"
  | JObj "(string \<times> json) list"

text \<open>
  Instances of \<^verbatim>\<open>Exception\<close> (the class that every \<^verbatim>\<open>except Exception\<close> of the
  code catches). \<open>External\<close> carries the text of an exception raised by a
  collaborator: the agent runtime, the warehouse client, the file system.
\<close>

datatype exn =
    AttributeError string
  | TypeError string
  | FileNotFoundError string
  | External string

text \<open>\<^verbatim>\<open>str(e)\<close>: the text an exception carries.\<close>

fun exn_text :: "exn \<Rightarrow> string" where
  "exn_text (AttributeError s) = s"
| "exn_text (TypeError s) = s"
| "exn_text (FileNotFoundError s) = s"
| "exn_text (External s) = s"

text \<open>Truthiness, as \<^verbatim>\<open>if x:\<close>, \<^verbatim>\<open>not x\<close> and \<^verbatim>\<open>all([...])\<close> test it.\<close>

fun truthy :: "json \<Rightarrow> bool" where
  "truthy JNull = False"
| "truthy (JBool b) = b"
| "truthy (JInt n) = (n \<noteq> 0)"
| "truthy (JStr s) = (s \<noteq> [])"
| "truthy (JList xs) = (xs \<noteq> [])"
| "truthy (JObj kvs) = (kvs \<noteq> [])"

text \<open>
  \<^verbatim>\<open>str(value)\<close>. A string is itself, \<^verbatim>\<open>None\<close> prints as \<^verbatim>\<open>None\<close>, the
  booleans as \<^verbatim>\<open>True\<close> and \<^verbatim>\<open>False\<close>. What Python prints for a number, a
  list or a dict is the parameter \<open>rp\<close>.
\<close>

fun py_str :: "(json \<Rightarrow> string) \<Rightarrow> json \<Rightarrow> string" where
  "py_str rp (JStr s) = s"
| "py_str rp JNull = ''None''"
| "py_str rp (JBool b) = (if b then ''True'' else ''False'')"
| "py_str rp v = rp v"

text \<open>The class \<^verbatim>\<open>[\x00-\x1f\x7f]\<close> of the regular expression.\<close>

definition is_control :: "char \<Rightarrow> bool" where
  "is_control c = ((of_char c :: nat) \<le> 31 \<or> (of_char c :: nat) = 127)"

text \<open>
  \<^verbatim>\<open>sanitize_for_log\<close> (app.py, lines 18-23): a value that is not a string is
  first turned into one by \<^verbatim>\<open>str\<close>; then \<^verbatim>\<open>re.sub\<close> replaces every match of
  the class by a question mark.
\<close>

definition sanitize_for_log :: "(json \<Rightarrow> string) \<Rightarrow> json \<Rightarrow> string" where
  "sanitize_for_log rp v0 =
     (let v = py_str rp v0
      in map (\<lambda>c. if is_control c then CHR ''?'' else c) v)"

text \<open>
  \<^verbatim>\<open>d.get(key)\<close> and \<^verbatim>\<open>d.get(key, default)\<close>. Only a dict has the method: on
  any other value the attribute lookup raises \<^verbatim>\<open>AttributeError\<close>.
\<close>

fun type_name :: "json \<Rightarrow> string" where
  "type_name JNull = ''NoneType''"
| "type_name (JBool b) = ''bool''"
| "type_name (JInt n) = ''int''"
| "type_name (JStr s) = ''str''"
| "type_name (JList xs) = ''list''"
| "type_name (JObj kvs) = ''dict''"

definition no_attribute :: "json \<Rightarrow> string \<Rightarrow> exn" where
  "no_attribute v a =
     AttributeError ([CHR 0x27] @ type_name v @ [CHR 0x27] @ '' object has no attribute ''
                     @ [CHR 0x27] @ a @ [CHR 0x27])"

definition not_iterable :: "json \<Rightarrow> exn" where
  "not_iterable v = TypeError ([CHR 0x27] @ type_name v @ [CHR 0x27] @ '' object is not iterable'')"

fun dict_get_default :: "json \<Rightarrow> string \<Rightarrow> json \<Rightarrow> exn + json" where
  "dict_get_default (JObj kvs) k d = Inr (case map_of kvs k of None \<Rightarrow> d | Some v \<Rightarrow> v)"
| "dict_get_default v k d = Inl (no_attribute v ''get'')"

definition dict_get :: "json \<Rightarrow> string \<Rightarrow> exn + json" where
  "dict_get v k = dict_get_default v k JNull"

section \<open>The chat handler\<close>

text \<open>
  The events of the agent runtime, with the attributes the handler reads. Each
  attribute that the runtime declares optional is an \<open>option\<close>; an attribute
  that is absent reads like one that is \<^verbatim>\<open>None\<close> under the handler's
  \<^verbatim>\<open>hasattr(x, 'a') and x.a\<close>.
\<close>

record function_call =
  fc_args :: "(string \<times> json) list option"

record part =
  part_text :: "string option"
  part_function_call :: "function_call option"

record content =
  content_role :: "string option"
  content_parts :: "part list option"

record event =
  ev_error_code :: "string option"
  ev_content :: "content option"

text \<open>
  What an awaited call can raise: an instance of \<^verbatim>\<open>Exception\<close>, or
  \<^verbatim>\<open>asyncio.CancelledError\<close>, which is a \<^verbatim>\<open>BaseException\<close> and no
  \<^verbatim>\<open>Exception\<close>, raised into the coroutine when its task is cancelled while it
  waits for the next event.
\<close>

datatype raised = Exn exn | CancelledError

text \<open>
  The response sequence of one \<^verbatim>\<open>run_async\<close> call: the events it yields, and
  then either exhaustion (\<open>None\<close>) or what is raised while the handler waits for
  the next event.
\<close>

type_synonym stream = "event list \<times> raised option"

text \<open>One output message, \<^verbatim>\<open>{"role": r, "content": c}\<close>.\<close>

type_synonym message = "string \<times> string"

text \<open>
  \<^verbatim>\<open>kpi_data\<close> is a \<^verbatim>\<open>defaultdict\<close> whose missing keys read as \<^verbatim>\<open>"N/A"\<close>. The
  record has one field per key the handler writes; \<open>None\<close> is a key not yet in
  the dict.
\<close>

record kpi =
  kpi_user_id :: "string option"
  kpi_session_id :: "string option"
  kpi_question :: "string option"
  llm_round_trips :: "int option"
  generated_sql :: "json option"
  agent_error :: "string option"
  clarification_asked :: "bool option"
  server_error :: "string option"

definition kpi_empty :: kpi where
  "kpi_empty = \<lparr>kpi_user_id = None, kpi_session_id = None, kpi_question = None,
                llm_round_trips = None, generated_sql = None, agent_error = None,
                clarification_asked = None, server_error = None\<rparr>"

text \<open>Reading \<^verbatim>\<open>kpi_data["generated_sql"]\<close>: the default for a missing key.\<close>

definition read_generated_sql :: "kpi \<Rightarrow> json" where
  "read_generated_sql k = (case generated_sql k of None \<Rightarrow> JStr ''N/A'' | Some v \<Rightarrow> v)"

text \<open>The local variables of the handler that live across the loop.\<close>

record chat_state =
  final_response_parts :: "message list"
  llm_response_text :: string
  kpi_data :: kpi

text \<open>
  The inner loop (lines 218-225) over the parts of one event, on the triple
  (\<^verbatim>\<open>text_in_this_turn\<close>, \<^verbatim>\<open>sql_in_this_turn\<close>, \<^verbatim>\<open>kpi_data\<close>).
  \<^verbatim>\<open>part.function_call.args.get\<close> raises when \<^verbatim>\<open>args\<close> is \<^verbatim>\<open>None\<close>. An
  exception leaves with the telemetry as it then stands, for the handler's
  \<^verbatim>\<open>except\<close> clause.
\<close>

fun scan_parts :: "part list \<Rightarrow> string \<times> json option \<times> kpi \<Rightarrow> (exn \<times> kpi) + (string \<times> json option \<times> kpi)" where
  "scan_parts [] acc = Inr acc"
| "scan_parts (p # ps) (text_in_this_turn, sql_in_this_turn, k) =
     (let text' = (case part_text p of
                    Some t \<Rightarrow> (if t \<noteq> [] then text_in_this_turn @ t else text_in_this_turn)
                  | None \<Rightarrow> text_in_this_turn)
      in case part_function_call p of
           None \<Rightarrow> scan_parts ps (text', sql_in_this_turn, k)
         | Some fc \<Rightarrow>
             (case fc_args fc of
                None \<Rightarrow> Inl (no_attribute JNull ''get'', k)
              | Some args \<Rightarrow>
                  (case dict_get (JObj args) ''sql_query'' of
                     Inl e \<Rightarrow> Inl (e, k)
                   | Inr raw_sql \<Rightarrow>
                       (if truthy raw_sql
                        then scan_parts ps (text', Some raw_sql, k\<lparr>generated_sql := Some raw_sql\<rparr>)
                        else scan_parts ps (text', sql_in_this_turn, k)))))"

text \<open>The f-string of line 231: the SQL between the fences of a code block.\<close>

definition formatted_sql :: "(json \<Rightarrow> string) \<Rightarrow> json \<Rightarrow> string" where
  "formatted_sql rp sql =
     replicate 3 (CHR 0x60) @ ''sql'' @ [CHR 0x0A] @ py_str rp sql @ [CHR 0x0A] @ replicate 3 (CHR 0x60)"

text \<open>The f-string of line 208.\<close>

definition apology :: "string \<Rightarrow> string" where
  "apology code = ''I'' @ [CHR 0x27] @ ''m sorry, I encountered a technical issue...'' @ code"

text \<open>\<^verbatim>\<open>if event.error_code:\<close> holds for a code that is a non-empty string.\<close>

definition carries_error :: "event \<Rightarrow> bool" where
  "carries_error ev = (case ev_error_code ev of None \<Rightarrow> False | Some c \<Rightarrow> c \<noteq> [])"

text \<open>
  Lines 212-234: the body of the \<^verbatim>\<open>async for\<close> for an event without an error
  code. Iterating \<^verbatim>\<open>event.content.parts\<close> raises \<^verbatim>\<open>TypeError\<close> when it is
  \<^verbatim>\<open>None\<close>. The round-trip counter was set to 0 before the loop; adding to
  the default \<^verbatim>\<open>"N/A"\<close> of a missing key would raise.
\<close>

definition process_content :: "(json \<Rightarrow> string) \<Rightarrow> chat_state \<Rightarrow> event \<Rightarrow> (exn \<times> kpi) + chat_state" where
  "process_content rp st ev =
     (case ev_content ev of
        None \<Rightarrow> Inr st
      | Some c \<Rightarrow>
          (if content_role c = Some ''model'' then
             (case llm_round_trips (kpi_data st) of
                None \<Rightarrow> Inl (TypeError (''can only concatenate str (not '' @ [CHR 0x22] @ ''int''
                                        @ [CHR 0x22] @ '') to str''), kpi_data st)
              | Some n \<Rightarrow>
                  (let k1 = (kpi_data st)\<lparr>llm_round_trips := Some (n + 1)\<rparr>
                   in case content_parts c of
                        None \<Rightarrow> Inl (not_iterable JNull, k1)
                      | Some ps \<Rightarrow>
                          (case scan_parts ps ([], None, k1) of
                             Inl ek \<Rightarrow> Inl ek
                           | Inr (text_in_this_turn, sql_in_this_turn, k2) \<Rightarrow>
                               (let llm' = (if text_in_this_turn \<noteq> []
                                            then llm_response_text st @ text_in_this_turn
                                            else llm_response_text st);
                                    parts' = (case sql_in_this_turn of
                                                Some sql \<Rightarrow>
                                                  final_response_parts st @ [(''model'', formatted_sql rp sql)]
                                              | None \<Rightarrow>
                                                  (if text_in_this_turn \<noteq> []
                                                   then final_response_parts st @ [(''model'', text_in_this_turn)]
                                                   else final_response_parts st))
                                in Inr \<lparr>final_response_parts = parts', llm_response_text = llm',
                                        kpi_data = k2\<rparr>))))
           else Inr st))"

text \<open>
  The whole body (lines 207-234) for one event. The boolean of the result is
  \<open>True\<close> when the body ends in \<^verbatim>\<open>break\<close>.
\<close>

definition process_event :: "(json \<Rightarrow> string) \<Rightarrow> chat_state \<Rightarrow> event \<Rightarrow> (exn \<times> kpi) + (chat_state \<times> bool)" where
  "process_event rp st ev =
     (case ev_error_code ev of
        None \<Rightarrow> map_sum id (\<lambda>st'. (st', False)) (process_content rp st ev)
      | Some code \<Rightarrow>
          (if code \<noteq> [] then
             Inr (st\<lparr>final_response_parts := final_response_parts st @ [(''assistant'', apology code)],
                      kpi_data := (kpi_data st)\<lparr>agent_error := Some code\<rparr>\<rparr>, True)
           else map_sum id (\<lambda>st'. (st', False)) (process_content rp st ev)))"

text \<open>
  The \<^verbatim>\<open>async for\<close> loop itself. The second component of the result counts the
  events taken from the stream. What the body or the stream raises leaves the
  loop with \<open>Inl\<close>, for the \<^verbatim>\<open>except\<close> clause of the handler below.
\<close>

fun consume :: "(json \<Rightarrow> string) \<Rightarrow> event list \<Rightarrow> raised option \<Rightarrow> chat_state \<Rightarrow> ((raised \<times> kpi) + chat_state) \<times> nat" where
  "consume rp [] None st = (Inr st, 0)"
| "consume rp [] (Some r) st = (Inl (r, kpi_data st), 0)"
| "consume rp (ev # evs) term st =
     (case process_event rp st ev of
        Inl (e, k) \<Rightarrow> (Inl (Exn e, k), 1)
      | Inr (st', brk) \<Rightarrow>
          (if brk then (Inr st', 1)
           else (case consume rp evs term st' of (r, n) \<Rightarrow> (r, Suc n))))"

text \<open>
  How a handler ends: it returns a response (body and status), or something it
  does not catch leaves it.
\<close>

datatype reply = Returns "json \<times> nat" | Propagates raised

text \<open>
  What one request leaves behind: how the handler ended, the arguments of
  every \<^verbatim>\<open>run_async\<close> call, the number of events taken from the stream, and
  the telemetry record at the end.
\<close>

record outcome =
  response :: reply
  agent_calls :: "(string \<times> string \<times> string) list"
  consumed :: nat
  telemetry :: kpi

definition message_json :: "message \<Rightarrow> json" where
  "message_json m = JObj [(''role'', JStr (fst m)), (''content'', JStr (snd m))]"

text \<open>
  The \<^verbatim>\<open>except Exception\<close> clause (lines 240-244). \<open>session_id\<close> is the local
  variable, still \<^verbatim>\<open>None\<close> when the exception came before its assignment.
\<close>

definition on_exception :: "string option \<Rightarrow> exn \<Rightarrow> kpi \<Rightarrow> (string \<times> string \<times> string) list \<Rightarrow> nat \<Rightarrow> outcome" where
  "on_exception session_id e k calls n =
     \<lparr>response = Returns (JObj [(''session_id'', JStr (case session_id of None \<Rightarrow> [] | Some s \<Rightarrow> s)),
                                (''messages'', JList []),
                                (''error'', JStr ''Internal server error'')], 500),
      agent_calls = calls,
      consumed = n,
      telemetry = k\<lparr>server_error := Some (exn_text e)\<rparr>\<rparr>"

text \<open>Lines 236-238: the derived flag and the success response.\<close>

definition finish :: "string \<Rightarrow> chat_state \<Rightarrow> (string \<times> string \<times> string) list \<Rightarrow> nat \<Rightarrow> outcome" where
  "finish session_id st calls n =
     (let g = read_generated_sql (kpi_data st);
          flag = (if g = JStr ''N/A'' \<and> llm_response_text st \<noteq> [] then True else False)
      in \<lparr>response = Returns (JObj [(''session_id'', JStr session_id),
                     (''messages'', JList (map message_json (final_response_parts st)))], 200),
          agent_calls = calls,
          consumed = n,
          telemetry = (kpi_data st)\<lparr>generated_sql := Some g, clarification_asked := Some flag\<rparr>\<rparr>)"

text \<open>Lines 197-200: the telemetry and the locals as the loop starts.\<close>

definition chat_start :: "string \<Rightarrow> string \<Rightarrow> string \<Rightarrow> chat_state" where
  "chat_start user_id session_id message_text =
     \<lparr>final_response_parts = [], llm_response_text = [],
      kpi_data = kpi_empty\<lparr>kpi_user_id := Some user_id, kpi_session_id := Some session_id,
                            kpi_question := Some message_text, llm_round_trips := Some 0\<rparr>\<rparr>"

text \<open>
  Lines 196-244, entered once the three inputs have passed the check of line
  192. \<open>agent\<close> is \<^verbatim>\<open>runner.run_async\<close>: from the user id, the session id and
  the message text to the stream it yields. The \<^verbatim>\<open>except Exception\<close> clause
  catches the instances of \<^verbatim>\<open>Exception\<close>; a cancellation leaves the handler.
\<close>

definition run_chat :: "(json \<Rightarrow> string) \<Rightarrow> (string \<Rightarrow> string \<Rightarrow> string \<Rightarrow> stream) \<Rightarrow> string \<Rightarrow> string \<Rightarrow> string \<Rightarrow> outcome" where
  "run_chat rp agent user_id session_id message_text =
     (let calls = [(user_id, session_id, message_text)];
          (evs, term) = agent user_id session_id message_text
      in case consume rp evs term (chat_start user_id session_id message_text) of
           (Inl (Exn e, k), n) \<Rightarrow> on_exception (Some session_id) e k calls n
         | (Inl (CancelledError, k), n) \<Rightarrow>
             \<lparr>response = Propagates CancelledError, agent_calls = calls, consumed = n, telemetry = k\<rparr>
         | (Inr st, n) \<Rightarrow> finish session_id st calls n)"

text \<open>
  Lines 187-194: the three inputs are read from the body and sanitized, then
  checked. The result is the response that ends the request here (\<open>Inl\<close>), or
  the three strings the handler goes on with. \<open>get_json\<close> is the outcome of
  \<^verbatim>\<open>request.get_json()\<close>, which raises on a body that is not JSON.
\<close>

definition read_request :: "(json \<Rightarrow> string) \<Rightarrow> exn + json \<Rightarrow> outcome + (string \<times> string \<times> string)" where
  "read_request rp get_json =
     (case get_json of
        Inl e \<Rightarrow> Inl (on_exception None e kpi_empty [] 0)
      | Inr req_data \<Rightarrow>
          (case dict_get req_data ''user_id'' of
             Inl e \<Rightarrow> Inl (on_exception None e kpi_empty [] 0)
           | Inr u \<Rightarrow>
               (let user_id = sanitize_for_log rp u in
                case dict_get req_data ''session_id'' of
                  Inl e \<Rightarrow> Inl (on_exception None e kpi_empty [] 0)
                | Inr s \<Rightarrow>
                    (let session_id = sanitize_for_log rp s in
                     case dict_get_default req_data ''message'' (JObj []) of
                       Inl e \<Rightarrow> Inl (on_exception (Some session_id) e kpi_empty [] 0)
                     | Inr msg \<Rightarrow>
                         (case dict_get msg ''message'' of
                            Inl e \<Rightarrow> Inl (on_exception (Some session_id) e kpi_empty [] 0)
                          | Inr m \<Rightarrow>
                              (let message_text = sanitize_for_log rp m in
                               if \<not> (user_id \<noteq> [] \<and> session_id \<noteq> [] \<and> message_text \<noteq> []) then
                                 Inl \<lparr>response = Returns (JObj [(''error'',
                                                  JStr ''user_id, session_id, and message are required'')], 400),
                                      agent_calls = [], consumed = 0, telemetry = kpi_empty\<rparr>
                               else Inr (user_id, session_id, message_text)))))))"

text \<open>
  The three attributes of the application object that the handler reads. An
  attribute is absent (reading it raises \<^verbatim>\<open>AttributeError\<close>), set to \<^verbatim>\<open>None\<close>,
  or set to an object.
\<close>

datatype attr = Absent | IsNone | Object

record app =
  app_runner :: attr
  app_session_service :: attr
  app_genai_types :: attr

text \<open>
  \<^verbatim>\<open>create_app\<close> (lines 104-128), as far as the three attributes go.
  \<open>initialised\<close> says that the imports succeeded and the runner was built: then
  all three are set. Otherwise only \<^verbatim>\<open>app.runner\<close> is assigned, to \<^verbatim>\<open>None\<close>.
\<close>

definition create_app :: "bool \<Rightarrow> app" where
  "create_app initialised =
     (if initialised
      then \<lparr>app_runner = Object, app_session_service = Object, app_genai_types = Object\<rparr>
      else \<lparr>app_runner = IsNone, app_session_service = Absent, app_genai_types = Absent\<rparr>)"

definition flask_has_no_attribute :: "string \<Rightarrow> raised" where
  "flask_has_no_attribute a =
     Exn (AttributeError ([CHR 0x27] @ ''Flask'' @ [CHR 0x27] @ '' object has no attribute ''
                          @ [CHR 0x27] @ a @ [CHR 0x27]))"

definition leaves_handler :: "raised \<Rightarrow> outcome" where
  "leaves_handler r = \<lparr>response = Propagates r, agent_calls = [], consumed = 0, telemetry = kpi_empty\<rparr>"

text \<open>
  \<^verbatim>\<open>chat_handler\<close> (lines 176-244). Lines 178-182 are outside the \<^verbatim>\<open>try\<close>: an
  absent attribute raises out of the handler.
\<close>

definition chat_handler :: "(json \<Rightarrow> string) \<Rightarrow> app \<Rightarrow> exn + json \<Rightarrow> (string \<Rightarrow> string \<Rightarrow> string \<Rightarrow> stream) \<Rightarrow> outcome" where
  "chat_handler rp current_app get_json agent =
     (if app_runner current_app = Absent then leaves_handler (flask_has_no_attribute ''runner'')
      else if app_session_service current_app = Absent
        then leaves_handler (flask_has_no_attribute ''session_service'')
      else if app_genai_types current_app = Absent
        then leaves_handler (flask_has_no_attribute ''genai_types'')
      else if \<not> (app_runner current_app = Object \<and> app_session_service current_app = Object \<and>
                  app_genai_types current_app = Object) then
        \<lparr>response = Returns (JObj [(''error'', JStr ''Chat components not initialized on the server.'')], 500),
         agent_calls = [], consumed = 0, telemetry = kpi_empty\<rparr>
      else case read_request rp get_json of
        Inl out \<Rightarrow> out
      | Inr (user_id, session_id, message_text) \<Rightarrow> run_chat rp agent user_id session_id message_text)"

text \<open>
  The specification's words for one event, for comparison with the loop over
  its parts: the text accumulated in the event is the text of its parts, in
  order; the SQL captured in the event is the \<^verbatim>\<open>sql_query\<close> argument of its
  last function call that has one that is not empty.
\<close>

definition spec_part_sql :: "part \<Rightarrow> json option" where
  "spec_part_sql p =
     (case part_function_call p of
        None \<Rightarrow> None
      | Some fc \<Rightarrow>
          (case fc_args fc of
             None \<Rightarrow> None
           | Some args \<Rightarrow>
               (case map_of args ''sql_query'' of
                  None \<Rightarrow> None
                | Some v \<Rightarrow> (if truthy v then Some v else None))))"


definition spec_turn_sql :: "part list \<Rightarrow> json option" where
  "spec_turn_sql ps = (case rev (List.map_filter spec_part_sql ps) of [] \<Rightarrow> None | q # qs \<Rightarrow> Some q)"

section \<open>The source-code route\<close>

text \<open>
  \<^verbatim>\<open>os.path.basename\<close> and \<^verbatim>\<open>os.path.join\<close> of \<^verbatim>\<open>posixpath\<close>, and
  \<^verbatim>\<open>str.startswith\<close>. The base name is what follows the last separator; a
  second component that starts with the separator replaces the first.
\<close>

definition basename :: "string \<Rightarrow> string" where
  "basename p = rev (takeWhile (\<lambda>c. c \<noteq> CHR ''/'') (rev p))"

definition startswith :: "string \<Rightarrow> string \<Rightarrow> bool" where
  "startswith s pre = (take (length pre) s = pre)"

definition join :: "string \<Rightarrow> string \<Rightarrow> string" where
  "join a b =
     (if startswith b ''/'' then b
      else if a = [] \<or> last a = CHR ''/'' then a @ b
      else a @ ''/'' @ b)"

text \<open>
  What one request to \<^verbatim>\<open>/api/code\<close> leaves behind: the response, and the paths
  handed to \<^verbatim>\<open>open\<close>.
\<close>

record code_outcome =
  code_response :: "json \<times> nat"
  opened :: "string list"

text \<open>
  \<^verbatim>\<open>get_code_file\<close> (lines 281-302). \<open>base_dir\<close> is the directory above the
  directory of \<^verbatim>\<open>app.py\<close>; \<open>read_file\<close> is \<^verbatim>\<open>open\<close> followed by \<^verbatim>\<open>read\<close>;
  \<open>arg\<close> is \<^verbatim>\<open>request.args.get("filepath")\<close>, \<open>None\<close> without the parameter.
\<close>

definition get_code_file :: "(json \<Rightarrow> string) \<Rightarrow> string \<Rightarrow> (string \<Rightarrow> exn + string) \<Rightarrow> string option \<Rightarrow> code_outcome" where
  "get_code_file rp base_dir read_file arg =
     (let filepath = sanitize_for_log rp (case arg of None \<Rightarrow> JNull | Some s \<Rightarrow> JStr s)
      in if filepath = [] then
           \<lparr>code_response = (JObj [(''error'', JStr ''Filepath is required'')], 400), opened = []\<rparr>
         else
           (let allowed_dir = join base_dir ''data_agent'';
                safe_filename = basename filepath;
                abs_filepath = join allowed_dir safe_filename
            in if \<not> startswith abs_filepath allowed_dir then
                 \<lparr>code_response = (JObj [(''error'', JStr ''Invalid filepath'')], 400), opened = []\<rparr>
               else
                 (case read_file abs_filepath of
                    Inr content \<Rightarrow>
                      \<lparr>code_response = (JObj [(''content'', JStr content)], 200), opened = [abs_filepath]\<rparr>
                  | Inl (FileNotFoundError t) \<Rightarrow>
                      \<lparr>code_response = (JObj [(''error'', JStr ''File not found'')], 404), opened = [abs_filepath]\<rparr>
                  | Inl e \<Rightarrow>
                      \<lparr>code_response = (JObj [(''error'', JStr ''Internal server error'')], 500),
                       opened = [abs_filepath]\<rparr>)))"

text \<open>
  The specification's notion of a path that escapes the sandboxed directory,
  for comparison with the route: read relative to the directory, the path is
  absolute or one of its \<^verbatim>\<open>..\<close> components steps above the directory.
\<close>

fun split_sep :: "string \<Rightarrow> string \<Rightarrow> string list" where
  "split_sep [] cur = [rev cur]"
| "split_sep (c # cs) cur = (if c = CHR ''/'' then rev cur # split_sep cs [] else split_sep cs (c # cur))"

fun steps_above :: "string list \<Rightarrow> nat \<Rightarrow> bool" where
  "steps_above [] depth = False"
| "steps_above (c # cs) depth =
     (if c = ''..'' then (depth = 0 \<or> steps_above cs (depth - 1))
      else if c = [] \<or> c = ''.'' then steps_above cs depth
      else steps_above cs (Suc depth))"

definition spec_escapes :: "string \<Rightarrow> bool" where
  "spec_escapes filepath = (startswith filepath ''/'' \<or> steps_above (split_sep filepath []) 0)"

section \<open>The response cache and the table listing\<close>











section \<open>Startup prompt assembly\<close>

text \<open>
  What \<^verbatim>\<open>_build_master_instructions\<close> calls, each with the outcome of the call:
  the three fetchers of \<^verbatim>\<open>src/data_agent/utils.py\<close> (each builds its client
  outside its \<^verbatim>\<open>try\<close>), \<^verbatim>\<open>json.dumps\<close>, the template file (\<^verbatim>\<open>open\<close> with
  \<^verbatim>\<open>yaml.safe_load\<close>, then the join of its values), \<^verbatim>\<open>str.format\<close>, the bodies
  of the two debugging helpers, the token count and the KPI logger. \<open>'v\<close> is
  the type of a fetched row, \<open>'y\<close> of the parsed template file.
\<close>

record ('v, 'y) startup_env =
  fetch_table_entry_metadata :: "exn + 'v list"
  fetch_bigquery_data_profiles :: "exn + 'v list"
  fetch_sample_data_for_tables :: "exn + 'v list"
  json_dumps :: "'v list \<Rightarrow> exn + string"
  load_yaml :: "exn + 'y"
  join_values :: "'y \<Rightarrow> exn + string"
  format_template :: "string \<Rightarrow> string \<Rightarrow> string \<Rightarrow> string \<Rightarrow> exn + string"
  print_payload :: "string \<Rightarrow> exn + unit"
  write_prompt :: "string \<Rightarrow> exn + unit"
  count_tokens :: "string \<Rightarrow> exn + nat"
  log_startup_kpis :: "'v list \<Rightarrow> 'v list \<Rightarrow> nat \<Rightarrow> exn + unit"

text \<open>
  The two helpers catch every exception of their bodies. Each returns the
  warnings it wrote to the operational log.
\<close>

definition log_prompt_for_debugging :: "('v, 'y) startup_env \<Rightarrow> string \<Rightarrow> string list" where
  "log_prompt_for_debugging env prompt_content =
     (case print_payload env prompt_content of
        Inr u \<Rightarrow> []
      | Inl e \<Rightarrow> [''Could not create structured debug prompt: '' @ exn_text e])"

definition save_instructions_for_debugging :: "('v, 'y) startup_env \<Rightarrow> string \<Rightarrow> string list" where
  "save_instructions_for_debugging env prompt_content =
     (case write_prompt env prompt_content of
        Inr u \<Rightarrow> []
      | Inl e \<Rightarrow> [''Could not save prompt for debugging; continuing execution.''])"

text \<open>
  The body of the \<^verbatim>\<open>try\<close> of \<^verbatim>\<open>_build_master_instructions\<close> (lines 105-158):
  the prompt, or the exception that left the body, each with the warnings
  logged up to there.
\<close>

definition build_body :: "('v, 'y) startup_env \<Rightarrow> (exn \<times> string list) + (string \<times> string list)" where
  "build_body env =
     (case fetch_table_entry_metadata env of Inl e \<Rightarrow> Inl (e, []) | Inr table_metadata \<Rightarrow>
     (case fetch_bigquery_data_profiles env of Inl e \<Rightarrow> Inl (e, []) | Inr data_profiles \<Rightarrow>
     (case (if data_profiles = [] then fetch_sample_data_for_tables env else Inr []) of
        Inl e \<Rightarrow> Inl (e, []) | Inr samples \<Rightarrow>
     (case json_dumps env table_metadata of Inl e \<Rightarrow> Inl (e, []) | Inr table_metadata_str \<Rightarrow>
     (case json_dumps env data_profiles of Inl e \<Rightarrow> Inl (e, []) | Inr data_profiles_str \<Rightarrow>
     (case json_dumps env samples of Inl e \<Rightarrow> Inl (e, []) | Inr samples_str \<Rightarrow>
     (case load_yaml env of Inl e \<Rightarrow> Inl (e, []) | Inr instructions_yaml \<Rightarrow>
     (case join_values env instructions_yaml of Inl e \<Rightarrow> Inl (e, []) | Inr instruction_template \<Rightarrow>
     (case format_template env instruction_template table_metadata_str data_profiles_str samples_str of
        Inl e \<Rightarrow> Inl (e, []) | Inr final_prompt \<Rightarrow>
     (let w1 = log_prompt_for_debugging env final_prompt;
          w2 = save_instructions_for_debugging env final_prompt;
          tc = (case count_tokens env final_prompt of
                  Inr n \<Rightarrow> (n, [])
                | Inl e \<Rightarrow> (0, [''Could not calculate token count.'']))
      in (case log_startup_kpis env table_metadata data_profiles (fst tc) of
            Inl e \<Rightarrow> Inl (e, w1 @ w2 @ snd tc)
          | Inr u \<Rightarrow> Inr (final_prompt, w1 @ w2 @ snd tc))))))))))))"

text \<open>
  \<^verbatim>\<open>_build_master_instructions\<close> (lines 99-163): the value that the module
  keeps as \<^verbatim>\<open>CACHED_INSTRUCTIONS\<close>, and the warnings and errors logged.
\<close>

definition build_master_instructions :: "('v, 'y) startup_env \<Rightarrow> string \<times> string list" where
  "build_master_instructions env =
     (case build_body env of
        Inr r \<Rightarrow> r
      | Inl (e, warnings) \<Rightarrow>
          ([], warnings @ [''Failed to build master instructions. Returning empty string.'']))"

section \<open>Properties of the chat handler\<close>





lemma process_event_no_error:
  "\<not> carries_error ev \<Longrightarrow> process_event rp st ev = map_sum id (\<lambda>st'. (st', False)) (process_content rp st ev)"
  by (auto simp: process_event_def carries_error_def split: option.splits)



lemma process_event_error:
  "ev_error_code ev = Some code \<Longrightarrow> code \<noteq> [] \<Longrightarrow>
   process_event rp st ev =
     Inr (st\<lparr>final_response_parts := final_response_parts st @ [(''assistant'', apology code)],
              kpi_data := (kpi_data st)\<lparr>agent_error := Some code\<rparr>\<rparr>, True)"
  by (simp add: process_event_def)

lemma consume_prefix:
  "\<forall>e\<in>set pre. \<not> carries_error e \<Longrightarrow> consume rp pre None st = (Inr st', n) \<Longrightarrow>
   n = length pre \<and>
   consume rp (pre @ rest) term st = (case consume rp rest term st' of (r, j) \<Rightarrow> (r, length pre + j))"
proof (induction pre arbitrary: st n)
  case Nil
  then show ?case by (cases "consume rp rest term st") auto
next
  case (Cons e pre)
  from Cons.prems(1) have ne: "\<not> carries_error e" and rest: "\<forall>e\<in>set pre. \<not> carries_error e"
    by auto
  from Cons.prems(2) ne obtain st1 where
    pc: "process_content rp st e = Inr st1"
    by (cases "process_content rp st e") (auto simp: process_event_no_error)
  from Cons.prems(2) ne pc obtain j where
    c: "consume rp pre None st1 = (Inr st', j)" and n: "n = Suc j"
    by (cases "consume rp pre None st1") (auto simp: process_event_no_error)
  from Cons.IH [OF rest c] have j: "j = length pre"
    and a: "consume rp (pre @ rest) term st1 =
             (case consume rp rest term st' of (r, j) \<Rightarrow> (r, length pre + j))"
    by auto
  show ?case using ne pc n j a
    by (cases "consume rp rest term st'") (auto simp: process_event_no_error)
qed

lemma process_content_roles:
  "process_content rp st ev = Inr st' \<Longrightarrow>
   \<forall>msg\<in>set (final_response_parts st). fst msg = ''model'' \<Longrightarrow>
   \<forall>msg\<in>set (final_response_parts st'). fst msg = ''model''"
  by (auto simp: process_content_def Let_def split: option.splits if_splits sum.splits)

lemma consume_roles:
  "\<forall>e\<in>set pre. \<not> carries_error e \<Longrightarrow> consume rp pre None st = (Inr st', n) \<Longrightarrow>
   \<forall>msg\<in>set (final_response_parts st). fst msg = ''model'' \<Longrightarrow>
   \<forall>msg\<in>set (final_response_parts st'). fst msg = ''model''"
proof (induction pre arbitrary: st n)
  case Nil
  then show ?case by auto
next
  case (Cons e pre)
  from Cons.prems(1) have ne: "\<not> carries_error e" and rest: "\<forall>e\<in>set pre. \<not> carries_error e"
    by auto
  from Cons.prems(2) ne obtain st1 where
    pc: "process_content rp st e = Inr st1"
    by (cases "process_content rp st e") (auto simp: process_event_no_error)
  from Cons.prems(2) ne pc obtain j where
    c: "consume rp pre None st1 = (Inr st', j)"
    by (cases "consume rp pre None st1") (auto simp: process_event_no_error)
  from process_content_roles [OF pc Cons.prems(3)] Cons.IH [OF rest c] show ?case by blast
qed

lemma run_chat_eq:
  "agent u s m = (evs, term) \<Longrightarrow>
   run_chat rp agent u s m =
     (case consume rp evs term (chat_start u s m) of
        (Inl (Exn e, k), n) \<Rightarrow> on_exception (Some s) e k [(u, s, m)] n
      | (Inl (CancelledError, k), n) \<Rightarrow>
          \<lparr>response = Propagates CancelledError, agent_calls = [(u, s, m)], consumed = n, telemetry = k\<rparr>
      | (Inr st, n) \<Rightarrow> finish s st [(u, s, m)] n)"
  by (simp add: run_chat_def Let_def)

lemma chat_handler_ready:
  "chat_handler rp (create_app True) gj agent =
     (case read_request rp gj of
        Inl out \<Rightarrow> out
      | Inr (u, s, m) \<Rightarrow> run_chat rp agent u s m)"
  by (simp add: chat_handler_def create_app_def)


lemma chat_handler_valid:
  "read_request rp gj = Inr (u, s, m) \<Longrightarrow> chat_handler rp (create_app True) gj agent = run_chat rp agent u s m"
  by (simp add: chat_handler_ready)

text \<open>
  Claim C4, as amended. Let the stream be \<open>pre @ ev # post\<close>, where no event of
  \<open>pre\<close> carries an error code, the handler works through \<open>pre\<close> without an
  exception (to the state \<open>st\<close>), and \<open>ev\<close> carries the error code \<open>code\<close>.
  Then the response is the 200 response whose messages are those of \<open>pre\<close>, all
  of role \<^verbatim>\<open>model\<close>, followed by one apology of role \<^verbatim>\<open>assistant\<close> that ends
  in \<open>code\<close>; the handler has taken \<open>length pre + 1\<close> events from the stream;
  and neither depends on \<open>post\<close> or on how the stream would have ended.
\<close>

theorem first_error_event_ends_the_turn:
  assumes req: "read_request rp gj = Inr (u, s, m)"
      and str: "agent u s m = (pre @ ev # post, term)"
      and pre: "\<forall>e\<in>set pre. \<not> carries_error e"
      and ok: "consume rp pre None (chat_start u s m) = (Inr st, n)"
      and code: "ev_error_code ev = Some code \<and> code \<noteq> []"
  shows "response (chat_handler rp (create_app True) gj agent) =
           Returns (JObj [(''session_id'', JStr s),
                  (''messages'', JList (map message_json
                     (final_response_parts st @ [(''assistant'', apology code)])))], 200)
         \<and> (\<forall>msg\<in>set (final_response_parts st). fst msg = ''model'')
         \<and> consumed (chat_handler rp (create_app True) gj agent) = Suc (length pre)
         \<and> agent_error (telemetry (chat_handler rp (create_app True) gj agent)) = Some code"
proof -
  let ?st' = "st\<lparr>final_response_parts := final_response_parts st @ [(''assistant'', apology code)],
                kpi_data := (kpi_data st)\<lparr>agent_error := Some code\<rparr>\<rparr>"
  from code have pe: "process_event rp st ev = Inr (?st', True)"
    by (simp add: process_event_error)
  have c: "consume rp (pre @ ev # post) term (chat_start u s m) = (Inr ?st', Suc (length pre))"
    using consume_prefix [OF pre ok, of "ev # post" "term"] pe by simp
  have h: "chat_handler rp (create_app True) gj agent = finish s ?st' [(u, s, m)] (Suc (length pre))"
    using chat_handler_valid [OF req] run_chat_eq [of agent u s m "pre @ ev # post" "term" rp] str c
    by simp
  have roles: "\<forall>msg\<in>set (final_response_parts st). fst msg = ''model''"
    using consume_roles [OF pre ok] by (simp add: chat_start_def)
  show ?thesis using roles by (simp add: h finish_def Let_def)
qed

lemma sanitize_plain [simp]:
  "sanitize_for_log rp (JStr ''u1'') = ''u1''"
  "sanitize_for_log rp (JStr ''s1'') = ''s1''"
  "sanitize_for_log rp (JStr ''hi'') = ''hi''"
  by (simp_all add: sanitize_for_log_def is_control_def)

lemma read_request_example:
  "read_request rp (Inr (JObj [(''user_id'', JStr ''u1''), (''session_id'', JStr ''s1''),
                               (''message'', JObj [(''message'', JStr ''hi'')])]))
   = Inr (''u1'', ''s1'', ''hi'')"
  by (simp add: read_request_def dict_get_def)

text \<open>
  The theorem at a stream of three events, the second and third with error
  codes, that would end in an exception: one apology, for the first code, and
  two events taken.
\<close>

theorem first_error_event_ends_the_turn_witness:
  "response (chat_handler (\<lambda>v. []) (create_app True)
      (Inr (JObj [(''user_id'', JStr ''u1''), (''session_id'', JStr ''s1''),
                  (''message'', JObj [(''message'', JStr ''hi'')])]))
      (\<lambda>u s m. ([\<lparr>ev_error_code = None, ev_content = None\<rparr>,
                   \<lparr>ev_error_code = Some ''E1'', ev_content = None\<rparr>,
                   \<lparr>ev_error_code = Some ''E2'', ev_content = None\<rparr>], Some (Exn (External ''lost'')))))
   = Returns (JObj [(''session_id'', JStr ''s1''),
            (''messages'', JList [message_json (''assistant'', apology ''E1'')])], 200)
   \<and> consumed (chat_handler (\<lambda>v. []) (create_app True)
      (Inr (JObj [(''user_id'', JStr ''u1''), (''session_id'', JStr ''s1''),
                  (''message'', JObj [(''message'', JStr ''hi'')])]))
      (\<lambda>u s m. ([\<lparr>ev_error_code = None, ev_content = None\<rparr>,
                   \<lparr>ev_error_code = Some ''E1'', ev_content = None\<rparr>,
                   \<lparr>ev_error_code = Some ''E2'', ev_content = None\<rparr>], Some (Exn (External ''lost''))))) = 2"
proof -
  let ?gj = "Inr (JObj [(''user_id'', JStr ''u1''), (''session_id'', JStr ''s1''),
                  (''message'', JObj [(''message'', JStr ''hi'')])])"
  let ?e0 = "\<lparr>ev_error_code = None, ev_content = None\<rparr>"
  let ?e1 = "\<lparr>ev_error_code = Some ''E1'', ev_content = None\<rparr>"
  let ?e2 = "\<lparr>ev_error_code = Some ''E2'', ev_content = None\<rparr>"
  let ?agent = "\<lambda>(u::string) (s::string) (m::string). ([?e0, ?e1, ?e2], Some (Exn (External ''lost'')))"
  have req: "read_request (\<lambda>v. []) ?gj = Inr (''u1'', ''s1'', ''hi'')"
    by (rule read_request_example)
  have str: "?agent ''u1'' ''s1'' ''hi'' = ([?e0] @ ?e1 # [?e2], Some (Exn (External ''lost'')))"
    by simp
  have pre: "\<forall>e\<in>set [?e0]. \<not> carries_error e"
    by (simp add: carries_error_def)
  have ok: "consume (\<lambda>v. []) [?e0] None (chat_start ''u1'' ''s1'' ''hi'')
              = (Inr (chat_start ''u1'' ''s1'' ''hi''), 1)"
    by (simp add: process_event_def process_content_def)
  have code: "ev_error_code ?e1 = Some ''E1'' \<and> ''E1'' \<noteq> []"
    by simp
  show ?thesis
    using first_error_event_ends_the_turn [of "\<lambda>v. []" ?gj "''u1''" "''s1''" "''hi''" ?agent "[?e0]" ?e1 "[?e2]"
            "Some (Exn (External ''lost''))" "chat_start ''u1'' ''s1'' ''hi''" 1 "''E1''", OF req str pre ok code]
    by (simp add: chat_start_def)
qed

text \<open>
  Claim C4 as stated fails where the event with the error code is not reached.
  In the stream of two error events the second event carries the code
  \<^verbatim>\<open>E2\<close>, and the only message is the apology for \<^verbatim>\<open>E1\<close>. In the stream whose
  first event is a model event with \<^verbatim>\<open>parts\<close> unset, the loop raises before the
  error event, and the response is the 500 response with no message.
\<close>

theorem later_error_event_counterexample:
  "carries_error \<lparr>ev_error_code = Some ''E2'', ev_content = None\<rparr>
   \<and> response (chat_handler (\<lambda>v. []) (create_app True)
      (Inr (JObj [(''user_id'', JStr ''u1''), (''session_id'', JStr ''s1''),
                  (''message'', JObj [(''message'', JStr ''hi'')])]))
      (\<lambda>u s m. ([\<lparr>ev_error_code = Some ''E1'', ev_content = None\<rparr>,
                   \<lparr>ev_error_code = Some ''E2'', ev_content = None\<rparr>], None)))
     = Returns (JObj [(''session_id'', JStr ''s1''),
              (''messages'', JList [message_json (''assistant'', apology ''E1'')])], 200)
   \<and> apology ''E1'' \<noteq> apology ''E2''
   \<and> response (chat_handler (\<lambda>v. []) (create_app True)
      (Inr (JObj [(''user_id'', JStr ''u1''), (''session_id'', JStr ''s1''),
                  (''message'', JObj [(''message'', JStr ''hi'')])]))
      (\<lambda>u s m. ([\<lparr>ev_error_code = None,
                    ev_content = Some \<lparr>content_role = Some ''model'', content_parts = None\<rparr>\<rparr>,
                   \<lparr>ev_error_code = Some ''E1'', ev_content = None\<rparr>], None)))
     = Returns (JObj [(''session_id'', JStr ''s1''), (''messages'', JList []),
              (''error'', JStr ''Internal server error'')], 500)"
  by (simp add: chat_handler_ready read_request_example run_chat_def chat_start_def
        process_event_def process_content_def carries_error_def finish_def on_exception_def
        apology_def kpi_empty_def)











text \<open>
  Claim C1 fails on the code. A body without \<^verbatim>\<open>user_id\<close> reads as \<^verbatim>\<open>None\<close>,
  which \<^verbatim>\<open>sanitize_for_log\<close> turns into the string \<^verbatim>\<open>None\<close> before the check
  of line 192, so the check passes: the agent runtime is called with the user
  id \<^verbatim>\<open>None\<close>, and the response is a 200.
\<close>

theorem missing_user_id_reaches_the_agent:
  "response (chat_handler rp (create_app True)
      (Inr (JObj [(''session_id'', JStr ''s1''), (''message'', JObj [(''message'', JStr ''hi'')])]))
      (\<lambda>u s m. ([], None)))
   = Returns (JObj [(''session_id'', JStr ''s1''), (''messages'', JList [])], 200)
   \<and> agent_calls (chat_handler rp (create_app True)
      (Inr (JObj [(''session_id'', JStr ''s1''), (''message'', JObj [(''message'', JStr ''hi'')])]))
      (\<lambda>u s m. ([], None)))
   = [(''None'', ''s1'', ''hi'')]"
  by (simp add: chat_handler_ready read_request_def dict_get_def sanitize_for_log_def is_control_def
        run_chat_def finish_def chat_start_def)

text \<open>
  The check of line 192 rejects a request one of whose three inputs is empty
  after sanitizing (the empty string): a 400, and no call of the agent
  runtime.
\<close>

lemma empty_field_is_rejected:
  "sanitize_for_log rp ju = [] \<or> sanitize_for_log rp js = [] \<or> sanitize_for_log rp jm = [] \<Longrightarrow>
   dict_get body ''user_id'' = Inr ju \<Longrightarrow> dict_get body ''session_id'' = Inr js \<Longrightarrow>
   dict_get_default body ''message'' (JObj []) = Inr msg \<Longrightarrow> dict_get msg ''message'' = Inr jm \<Longrightarrow>
   response (chat_handler rp (create_app True) (Inr body) agent)
     = Returns (JObj [(''error'', JStr ''user_id, session_id, and message are required'')], 400)
   \<and> agent_calls (chat_handler rp (create_app True) (Inr body) agent) = []"
  by (auto simp: chat_handler_ready read_request_def Let_def)

text \<open>
  Claim C5 fails on the code. The flag is computed from the telemetry key
  \<^verbatim>\<open>generated_sql\<close>, whose default for "no SQL" is the string \<^verbatim>\<open>N/A\<close>. A model
  event with some text and a function call whose \<^verbatim>\<open>sql_query\<close> is the string
  \<^verbatim>\<open>N/A\<close> has a SQL value captured, and still ends with the flag set.
\<close>

theorem sentinel_sql_sets_the_flag:
  "telemetry (chat_handler rp (create_app True)
      (Inr (JObj [(''user_id'', JStr ''u1''), (''session_id'', JStr ''s1''),
                  (''message'', JObj [(''message'', JStr ''hi'')])]))
      (\<lambda>u s m. ([\<lparr>ev_error_code = None,
                    ev_content = Some \<lparr>content_role = Some ''model'',
                      content_parts = Some
                        [\<lparr>part_text = Some ''Here is the query.'', part_function_call = None\<rparr>,
                         \<lparr>part_text = None,
                          part_function_call = Some \<lparr>fc_args = Some [(''sql_query'', JStr ''N/A'')]\<rparr>\<rparr>]\<rparr>\<rparr>],
                  None)))
   = \<lparr>kpi_user_id = Some ''u1'', kpi_session_id = Some ''s1'', kpi_question = Some ''hi'',
      llm_round_trips = Some 1, generated_sql = Some (JStr ''N/A''), agent_error = None,
      clarification_asked = Some True, server_error = None\<rparr>
   \<and> spec_turn_sql [\<lparr>part_text = Some ''Here is the query.'', part_function_call = None\<rparr>,
               \<lparr>part_text = None,
                part_function_call = Some \<lparr>fc_args = Some [(''sql_query'', JStr ''N/A'')]\<rparr>\<rparr>]
     = Some (JStr ''N/A'')"
  by (simp add: chat_handler_ready read_request_example run_chat_def chat_start_def
        process_event_def process_content_def dict_get_def finish_def read_generated_sql_def
        kpi_empty_def spec_turn_sql_def spec_part_sql_def List.map_filter_simps Let_def)

text \<open>
  A stream that raises after its events, none of which ends the loop, leaves
  the loop with what it raised.
\<close>

lemma consume_raises_at_end:
  "\<forall>e\<in>set evs. \<not> carries_error e \<Longrightarrow> consume rp evs None st = (Inr st', n) \<Longrightarrow>
   consume rp evs (Some r) st = (Inl (r, kpi_data st'), length evs)"
  using consume_prefix [of evs rp st st' n "[]" "Some r"] by simp

text \<open>
  Claim C6, as amended. Once the three inputs have passed the check, every
  instance of \<^verbatim>\<open>Exception\<close> that leaves the loop, raised by the stream or by
  the processing of an event, is turned into the 500 response whose body holds
  the session id of the request, an empty list of messages and the error text
  \<^verbatim>\<open>Internal server error\<close>: the body is the same for every exception, so
  nothing of the exception is in it. A cancellation, which is no instance of
  \<^verbatim>\<open>Exception\<close>, is not caught: it leaves the handler, and there is no
  response. Without either, the response is the 200 response with the messages
  of the loop.
\<close>

theorem exception_gives_generic_response:
  assumes req: "read_request rp gj = Inr (u, s, m)"
      and str: "agent u s m = (evs, term)"
  shows "(\<forall>e k n. consume rp evs term (chat_start u s m) = (Inl (Exn e, k), n) \<longrightarrow>
            response (chat_handler rp (create_app True) gj agent) =
              Returns (JObj [(''session_id'', JStr s), (''messages'', JList []),
                             (''error'', JStr ''Internal server error'')], 500))
         \<and> (\<forall>k n. consume rp evs term (chat_start u s m) = (Inl (CancelledError, k), n) \<longrightarrow>
            response (chat_handler rp (create_app True) gj agent) = Propagates CancelledError)
         \<and> (\<forall>st n. consume rp evs term (chat_start u s m) = (Inr st, n) \<longrightarrow>
            response (chat_handler rp (create_app True) gj agent) =
              Returns (JObj [(''session_id'', JStr s),
                             (''messages'', JList (map message_json (final_response_parts st)))], 200))"
proof -
  have h: "chat_handler rp (create_app True) gj agent =
     (case consume rp evs term (chat_start u s m) of
        (Inl (Exn e, k), n) \<Rightarrow> on_exception (Some s) e k [(u, s, m)] n
      | (Inl (CancelledError, k), n) \<Rightarrow>
          \<lparr>response = Propagates CancelledError, agent_calls = [(u, s, m)], consumed = n, telemetry = k\<rparr>
      | (Inr st, n) \<Rightarrow> finish s st [(u, s, m)] n)"
    using chat_handler_valid [OF req] run_chat_eq [of agent u s m evs "term" rp] str by simp
  show ?thesis
    by (simp add: h on_exception_def finish_def Let_def)
qed

text \<open>
  The theorem at a stream that yields one event and then raises an instance of
  \<^verbatim>\<open>Exception\<close>: the loop ends with the exception, and the response is the
  generic one.
\<close>

theorem exception_gives_generic_response_witness:
  "consume (\<lambda>v. []) [\<lparr>ev_error_code = None, ev_content = None\<rparr>]
      (Some (Exn (External ''connection reset''))) (chat_start ''u1'' ''s1'' ''hi'')
     = (Inl (Exn (External ''connection reset''), kpi_data (chat_start ''u1'' ''s1'' ''hi'')), 1)
   \<and> response (chat_handler (\<lambda>v. []) (create_app True)
        (Inr (JObj [(''user_id'', JStr ''u1''), (''session_id'', JStr ''s1''),
                    (''message'', JObj [(''message'', JStr ''hi'')])]))
        (\<lambda>u s m. ([\<lparr>ev_error_code = None, ev_content = None\<rparr>],
                    Some (Exn (External ''connection reset'')))))
     = Returns (JObj [(''session_id'', JStr ''s1''), (''messages'', JList []),
                      (''error'', JStr ''Internal server error'')], 500)"
proof -
  let ?gj = "Inr (JObj [(''user_id'', JStr ''u1''), (''session_id'', JStr ''s1''),
                  (''message'', JObj [(''message'', JStr ''hi'')])])"
  let ?e0 = "\<lparr>ev_error_code = None, ev_content = None\<rparr>"
  let ?agent = "\<lambda>(u::string) (s::string) (m::string).
                  ([?e0], Some (Exn (External ''connection reset'')))"
  have req: "read_request (\<lambda>v. []) ?gj = Inr (''u1'', ''s1'', ''hi'')"
    by (rule read_request_example)
  have str: "?agent ''u1'' ''s1'' ''hi'' = ([?e0], Some (Exn (External ''connection reset'')))"
    by simp
  have c: "consume (\<lambda>v. []) [?e0] (Some (Exn (External ''connection reset'')))
             (chat_start ''u1'' ''s1'' ''hi'')
     = (Inl (Exn (External ''connection reset''), kpi_data (chat_start ''u1'' ''s1'' ''hi'')), 1)"
    by (simp add: process_event_def process_content_def)
  from exception_gives_generic_response [of "\<lambda>v. []" ?gj "''u1''" "''s1''" "''hi''" ?agent "[?e0]"
        "Some (Exn (External ''connection reset''))", OF req str] c
  show ?thesis by simp
qed

text \<open>
  Claim C6 as stated fails for an exception that is no instance of
  \<^verbatim>\<open>Exception\<close>. The request is valid, and the stream is cancelled while the
  handler waits for its first event: the \<^verbatim>\<open>except Exception\<close> clause does not
  catch the \<^verbatim>\<open>CancelledError\<close>, so the handler returns no response, and no 500
  body.
\<close>

theorem cancellation_counterexample:
  "read_request (\<lambda>v. []) (Inr (JObj [(''user_id'', JStr ''u1''), (''session_id'', JStr ''s1''),
                                     (''message'', JObj [(''message'', JStr ''hi'')])]))
     = Inr (''u1'', ''s1'', ''hi'')
   \<and> response (chat_handler (\<lambda>v. []) (create_app True)
        (Inr (JObj [(''user_id'', JStr ''u1''), (''session_id'', JStr ''s1''),
                    (''message'', JObj [(''message'', JStr ''hi'')])]))
        (\<lambda>u s m. ([], Some CancelledError)))
     = Propagates CancelledError
   \<and> Propagates CancelledError
       \<noteq> Returns (JObj [(''session_id'', JStr ''s1''), (''messages'', JList []),
                        (''error'', JStr ''Internal server error'')], 500)"
  by (simp add: chat_handler_ready read_request_example run_chat_def chat_start_def)

section \<open>Properties of the source-code route\<close>

lemma basename_no_sep: "CHR ''/'' \<notin> set (basename p)"
proof -
  have "\<forall>c\<in>set (takeWhile (\<lambda>c. c \<noteq> CHR ''/'') (rev p)). c \<noteq> CHR ''/''"
    by (auto dest: set_takeWhileD)
  then show ?thesis by (auto simp: basename_def)
qed

lemma join_no_sep:
  "CHR ''/'' \<notin> set b \<Longrightarrow> join a b = (if a = [] \<or> last a = CHR ''/'' then a @ b else a @ ''/'' @ b)"
  by (cases b) (auto simp: join_def startswith_def)

lemma startswith_join: "CHR ''/'' \<notin> set b \<Longrightarrow> startswith (join a b) a"
  by (simp add: join_no_sep) (simp add: startswith_def)

lemma basename_suffix:
  "\<exists>dir. p = dir @ basename p \<and> (dir = [] \<or> last dir = CHR ''/'')"
proof -
  let ?P = "\<lambda>c. c \<noteq> CHR ''/''"
  have "rev p = takeWhile ?P (rev p) @ dropWhile ?P (rev p)" by simp
  then have "p = rev (dropWhile ?P (rev p)) @ rev (takeWhile ?P (rev p))"
    by (metis rev_append rev_rev_ident)
  then have p: "p = rev (dropWhile ?P (rev p)) @ basename p"
    by (simp add: basename_def)
  have "dropWhile ?P (rev p) = [] \<or> hd (dropWhile ?P (rev p)) = CHR ''/''"
    using hd_dropWhile [of ?P "rev p"] by auto
  then have "rev (dropWhile ?P (rev p)) = [] \<or> last (rev (dropWhile ?P (rev p))) = CHR ''/''"
    by (auto simp: last_rev)
  with p show ?thesis by blast
qed

text \<open>
  Claim C2, as amended. Let \<open>filepath\<close> be the sanitized \<^verbatim>\<open>filepath\<close> parameter,
  and \<open>path\<close> the directory \<^verbatim>\<open>data_agent\<close> joined with the base name of
  \<open>filepath\<close>, which is what follows its last separator and holds no separator
  itself. When \<open>filepath\<close> is empty the route answers 400 \<^verbatim>\<open>Filepath is
  required\<close> and opens nothing. Otherwise \<open>path\<close> is the one path it opens, and
  the response is 200 with the content read from \<open>path\<close>, 404 when the read
  raises \<^verbatim>\<open>FileNotFoundError\<close>, and 500 for any other exception of the read.
  The response \<^verbatim>\<open>Invalid filepath\<close> is never given.
\<close>

theorem code_route_reads_inside_only:
  "(let filepath = sanitize_for_log rp (case arg of None \<Rightarrow> JNull | Some s \<Rightarrow> JStr s);
        path = join (join base_dir ''data_agent'') (basename filepath);
        out = get_code_file rp base_dir read_file arg
    in CHR ''/'' \<notin> set (basename filepath)
       \<and> (\<exists>dir. filepath = dir @ basename filepath \<and> (dir = [] \<or> last dir = CHR ''/''))
       \<and> (filepath = [] \<longrightarrow>
            out = \<lparr>code_response = (JObj [(''error'', JStr ''Filepath is required'')], 400), opened = []\<rparr>)
       \<and> (filepath \<noteq> [] \<longrightarrow>
            opened out = [path]
            \<and> (\<forall>content. read_file path = Inr content \<longrightarrow>
                  code_response out = (JObj [(''content'', JStr content)], 200))
            \<and> (\<forall>t. read_file path = Inl (FileNotFoundError t) \<longrightarrow>
                  code_response out = (JObj [(''error'', JStr ''File not found'')], 404))
            \<and> (\<forall>e. read_file path = Inl e \<and> (\<forall>t. e \<noteq> FileNotFoundError t) \<longrightarrow>
                  code_response out = (JObj [(''error'', JStr ''Internal server error'')], 500)))
       \<and> code_response out \<noteq> (JObj [(''error'', JStr ''Invalid filepath'')], 400))"
proof -
  let ?fp = "sanitize_for_log rp (case arg of None \<Rightarrow> JNull | Some s \<Rightarrow> JStr s)"
  let ?dir = "join base_dir ''data_agent''"
  let ?abs = "join ?dir (basename ?fp)"
  let ?out = "get_code_file rp base_dir read_file arg"
  have ns: "CHR ''/'' \<notin> set (basename ?fp)" by (rule basename_no_sep)
  have sf: "\<exists>dir. ?fp = dir @ basename ?fp \<and> (dir = [] \<or> last dir = CHR ''/'')"
    by (rule basename_suffix)
  have sw: "startswith ?abs ?dir" by (rule startswith_join [OF ns])
  have e: "?fp = [] \<longrightarrow>
            ?out = \<lparr>code_response = (JObj [(''error'', JStr ''Filepath is required'')], 400), opened = []\<rparr>"
    by (simp add: get_code_file_def Let_def)
  have g: "?fp \<noteq> [] \<longrightarrow> ?out =
      (case read_file ?abs of
         Inr content \<Rightarrow> \<lparr>code_response = (JObj [(''content'', JStr content)], 200), opened = [?abs]\<rparr>
       | Inl (FileNotFoundError t) \<Rightarrow>
           \<lparr>code_response = (JObj [(''error'', JStr ''File not found'')], 404), opened = [?abs]\<rparr>
       | Inl e \<Rightarrow> \<lparr>code_response = (JObj [(''error'', JStr ''Internal server error'')], 500),
                    opened = [?abs]\<rparr>)"
    using sw by (simp add: get_code_file_def Let_def)
  have o: "?fp \<noteq> [] \<longrightarrow> opened ?out = [?abs]"
    using g by (auto split: sum.splits exn.splits)
  have r200: "?fp \<noteq> [] \<longrightarrow> (\<forall>content. read_file ?abs = Inr content \<longrightarrow>
                  code_response ?out = (JObj [(''content'', JStr content)], 200))"
    using g by auto
  have r404: "?fp \<noteq> [] \<longrightarrow> (\<forall>t. read_file ?abs = Inl (FileNotFoundError t) \<longrightarrow>
                  code_response ?out = (JObj [(''error'', JStr ''File not found'')], 404))"
    using g by auto
  have r500: "?fp \<noteq> [] \<longrightarrow> (\<forall>e. read_file ?abs = Inl e \<and> (\<forall>t. e \<noteq> FileNotFoundError t) \<longrightarrow>
                  code_response ?out = (JObj [(''error'', JStr ''Internal server error'')], 500))"
    using g by (auto split: exn.splits)
  have inv: "code_response ?out \<noteq> (JObj [(''error'', JStr ''Invalid filepath'')], 400)"
  proof (cases "?fp = []")
    case True
    with e show ?thesis by simp
  next
    case False
    with g show ?thesis by (auto split: sum.splits exn.splits)
  qed
  show ?thesis
    unfolding Let_def using ns sf e o r200 r404 r500 inv by blast
qed

text \<open>
  The theorem at the parameter \<^verbatim>\<open>../../etc/passwd\<close>, on a file system that has
  \<^verbatim>\<open>/etc/passwd\<close> and no \<^verbatim>\<open>passwd\<close> in the directory: the route opens
  \<^verbatim>\<open>data_agent/passwd\<close> and nothing else, and answers 404.
\<close>

theorem code_route_reads_inside_only_witness:
  "sanitize_for_log (\<lambda>v. []) (JStr ''../../etc/passwd'') = ''../../etc/passwd''
   \<and> join (join ''/app'' ''data_agent'') (basename ''../../etc/passwd'') = ''/app/data_agent/passwd''
   \<and> opened (get_code_file (\<lambda>v. []) ''/app''
        (\<lambda>p. if p = ''/etc/passwd'' then Inr ''root:x:0:0''
              else Inl (FileNotFoundError ''No such file or directory''))
        (Some ''../../etc/passwd'')) = [''/app/data_agent/passwd'']
   \<and> code_response (get_code_file (\<lambda>v. []) ''/app''
        (\<lambda>p. if p = ''/etc/passwd'' then Inr ''root:x:0:0''
              else Inl (FileNotFoundError ''No such file or directory''))
        (Some ''../../etc/passwd'')) = (JObj [(''error'', JStr ''File not found'')], 404)"
proof -
  let ?rd = "\<lambda>p. if p = ''/etc/passwd'' then Inr ''root:x:0:0''
                  else Inl (FileNotFoundError ''No such file or directory'')"
  have fp: "sanitize_for_log (\<lambda>v. []) (JStr ''../../etc/passwd'') = ''../../etc/passwd''"
    by (simp add: sanitize_for_log_def is_control_def)
  have pa: "join (join ''/app'' ''data_agent'') (basename ''../../etc/passwd'') = ''/app/data_agent/passwd''"
    by (simp add: basename_def join_def startswith_def)
  have rd: "?rd ''/app/data_agent/passwd'' = Inl (FileNotFoundError ''No such file or directory'')"
    by simp
  from code_route_reads_inside_only [of "\<lambda>v. []" "Some ''../../etc/passwd''" "''/app''" ?rd]
  have "opened (get_code_file (\<lambda>v. []) ''/app'' ?rd (Some ''../../etc/passwd'')) = [''/app/data_agent/passwd'']
        \<and> (\<forall>t. ?rd ''/app/data_agent/passwd'' = Inl (FileNotFoundError t) \<longrightarrow>
              code_response (get_code_file (\<lambda>v. []) ''/app'' ?rd (Some ''../../etc/passwd''))
                = (JObj [(''error'', JStr ''File not found'')], 404))"
    unfolding Let_def using fp pa by simp
  with rd fp pa show ?thesis by blast
qed

text \<open>
  Claim C2 as stated fails where the directory has a file of the same base
  name. The parameter \<^verbatim>\<open>../backend/utils.py\<close> escapes the directory, and the
  response is not a 400-class error: it is the 200 response with the contents
  of \<^verbatim>\<open>data_agent/utils.py\<close>.
\<close>

theorem escaping_path_counterexample:
  "spec_escapes ''../backend/utils.py''
   \<and> get_code_file (\<lambda>v. []) ''/app''
        (\<lambda>p. if p = ''/app/data_agent/utils.py'' then Inr ''import collections''
              else Inl (FileNotFoundError ''No such file or directory''))
        (Some ''../backend/utils.py'')
      = \<lparr>code_response = (JObj [(''content'', JStr ''import collections'')], 200),
         opened = [''/app/data_agent/utils.py'']\<rparr>"
  by (simp add: spec_escapes_def get_code_file_def sanitize_for_log_def is_control_def basename_def
        join_def startswith_def)

section \<open>Properties of the response cache\<close>













section \<open>Properties of the startup prompt assembly\<close>

lemma bmi_fail: "build_body env = Inl (e, ws) \<Longrightarrow> fst (build_master_instructions env) = []"
  by (simp add: build_master_instructions_def)

text \<open>
  Claim C8. \<^verbatim>\<open>_build_master_instructions\<close> always returns a string: no
  exception leaves it. If the metadata fetch, the profile fetch, the fallback
  sample fetch (made when there are no profiles), one of the three JSON
  serializations, the loading of the template file, the join of its values or
  the interpolation raises, the string is empty. When all of these and the KPI
  logger succeed, the string is the interpolated prompt. The outcome \<open>w\<close> of the
  debug save never changes the string: a failed save neither aborts the
  assembly nor empties the prompt.
\<close>

theorem startup_failure_gives_empty_prompt:
  "(fetch_table_entry_metadata env = Inl e \<longrightarrow> fst (build_master_instructions env) = [])
   \<and> (fetch_bigquery_data_profiles env = Inl e \<longrightarrow> fst (build_master_instructions env) = [])
   \<and> (fetch_bigquery_data_profiles env = Inr [] \<and> fetch_sample_data_for_tables env = Inl e \<longrightarrow>
        fst (build_master_instructions env) = [])
   \<and> (\<forall>md pf sm x.
        fetch_table_entry_metadata env = Inr md \<and> fetch_bigquery_data_profiles env = Inr pf \<and>
        (if pf = [] then fetch_sample_data_for_tables env else Inr []) = Inr sm \<and>
        x \<in> {md, pf, sm} \<and> json_dumps env x = Inl e \<longrightarrow>
        fst (build_master_instructions env) = [])
   \<and> (load_yaml env = Inl e \<longrightarrow> fst (build_master_instructions env) = [])
   \<and> (\<forall>y. load_yaml env = Inr y \<and> join_values env y = Inl e \<longrightarrow>
        fst (build_master_instructions env) = [])
   \<and> (\<forall>md pf sm ms ps ss y t.
        fetch_table_entry_metadata env = Inr md \<and> fetch_bigquery_data_profiles env = Inr pf \<and>
        (if pf = [] then fetch_sample_data_for_tables env else Inr []) = Inr sm \<and>
        json_dumps env md = Inr ms \<and> json_dumps env pf = Inr ps \<and> json_dumps env sm = Inr ss \<and>
        load_yaml env = Inr y \<and> join_values env y = Inr t \<longrightarrow>
        (format_template env t ms ps ss = Inl e \<longrightarrow> fst (build_master_instructions env) = []) \<and>
        (\<forall>final_prompt u. format_template env t ms ps ss = Inr final_prompt \<and>
            log_startup_kpis env md pf (case count_tokens env final_prompt of Inr n \<Rightarrow> n | Inl e \<Rightarrow> 0) = Inr u \<longrightarrow>
            fst (build_master_instructions env) = final_prompt))
   \<and> fst (build_master_instructions (env\<lparr>write_prompt := w\<rparr>)) = fst (build_master_instructions env)"
proof -
  have 1: "fetch_table_entry_metadata env = Inl e \<longrightarrow> fst (build_master_instructions env) = []"
    by (simp add: build_master_instructions_def build_body_def)
  have 2: "fetch_bigquery_data_profiles env = Inl e \<longrightarrow> fst (build_master_instructions env) = []"
    by (simp add: build_master_instructions_def build_body_def split: sum.splits)
  have 3: "fetch_bigquery_data_profiles env = Inr [] \<and> fetch_sample_data_for_tables env = Inl e \<longrightarrow>
        fst (build_master_instructions env) = []"
    by (simp add: build_master_instructions_def build_body_def split: sum.splits)
  have 4: "\<forall>md pf sm x.
        fetch_table_entry_metadata env = Inr md \<and> fetch_bigquery_data_profiles env = Inr pf \<and>
        (if pf = [] then fetch_sample_data_for_tables env else Inr []) = Inr sm \<and>
        x \<in> {md, pf, sm} \<and> json_dumps env x = Inl e \<longrightarrow>
        fst (build_master_instructions env) = []"
  proof (intro allI impI)
    fix md pf sm x
    assume h: "fetch_table_entry_metadata env = Inr md \<and> fetch_bigquery_data_profiles env = Inr pf \<and>
        (if pf = [] then fetch_sample_data_for_tables env else Inr []) = Inr sm \<and>
        x \<in> {md, pf, sm} \<and> json_dumps env x = Inl e"
    then have "x = md \<or> x = pf \<or> x = sm" by blast
    then have "\<exists>e' ws. build_body env = Inl (e', ws)"
      using h by (auto simp: build_body_def split: sum.splits)
    then show "fst (build_master_instructions env) = []"
      using bmi_fail by blast
  qed
  have 5: "load_yaml env = Inl e \<longrightarrow> fst (build_master_instructions env) = []"
    by (simp add: build_master_instructions_def build_body_def split: sum.splits)
  have 6: "\<forall>y. load_yaml env = Inr y \<and> join_values env y = Inl e \<longrightarrow>
        fst (build_master_instructions env) = []"
    by (simp add: build_master_instructions_def build_body_def split: sum.splits)
  have 7: "\<forall>md pf sm ms ps ss y t.
        fetch_table_entry_metadata env = Inr md \<and> fetch_bigquery_data_profiles env = Inr pf \<and>
        (if pf = [] then fetch_sample_data_for_tables env else Inr []) = Inr sm \<and>
        json_dumps env md = Inr ms \<and> json_dumps env pf = Inr ps \<and> json_dumps env sm = Inr ss \<and>
        load_yaml env = Inr y \<and> join_values env y = Inr t \<longrightarrow>
        (format_template env t ms ps ss = Inl e \<longrightarrow> fst (build_master_instructions env) = []) \<and>
        (\<forall>final_prompt u. format_template env t ms ps ss = Inr final_prompt \<and>
            log_startup_kpis env md pf (case count_tokens env final_prompt of Inr n \<Rightarrow> n | Inl e \<Rightarrow> 0) = Inr u \<longrightarrow>
            fst (build_master_instructions env) = final_prompt)"
    by (auto simp: build_master_instructions_def build_body_def Let_def split: sum.splits)
  have 8: "fst (build_master_instructions (env\<lparr>write_prompt := w\<rparr>)) = fst (build_master_instructions env)"
    by (simp add: build_master_instructions_def build_body_def Let_def split: sum.splits)
  from 1 2 3 4 5 6 7 8 show ?thesis by blast
qed

text \<open>
  The theorem at a startup whose metadata fetch raises: the prompt is empty.
  Beside it, a startup where only the debug save fails: the prompt is the
  interpolated template, and the failure is a warning in the log.
\<close>

theorem startup_failure_gives_empty_prompt_witness:
  "fst (build_master_instructions
     \<lparr>fetch_table_entry_metadata = Inl (External ''catalog unavailable''),
      fetch_bigquery_data_profiles = Inr [],
      fetch_sample_data_for_tables = Inr [2::nat],
      json_dumps = (\<lambda>x. Inr ''[]''),
      load_yaml = Inr ''T'',
      join_values = (\<lambda>y. Inr y),
      format_template = (\<lambda>t a b c. Inr (t @ a @ b @ c)),
      print_payload = (\<lambda>p. Inr ()),
      write_prompt = (\<lambda>p. Inr ()),
      count_tokens = (\<lambda>p. Inr 7),
      log_startup_kpis = (\<lambda>m p n. Inr ())\<rparr>) = []
   \<and> build_master_instructions
     \<lparr>fetch_table_entry_metadata = Inr [1::nat],
      fetch_bigquery_data_profiles = Inr [],
      fetch_sample_data_for_tables = Inr [2],
      json_dumps = (\<lambda>x. Inr ''[]''),
      load_yaml = Inr ''T'',
      join_values = (\<lambda>y. Inr y),
      format_template = (\<lambda>t a b c. Inr (t @ a @ b @ c)),
      print_payload = (\<lambda>p. Inr ()),
      write_prompt = (\<lambda>p. Inl (External ''disk full'')),
      count_tokens = (\<lambda>p. Inr 7),
      log_startup_kpis = (\<lambda>m p n. Inr ())\<rparr>
     = (''T[][][]'', [''Could not save prompt for debugging; continuing execution.''])"
proof -
  let ?bad = "\<lparr>fetch_table_entry_metadata = Inl (External ''catalog unavailable''),
      fetch_bigquery_data_profiles = Inr [],
      fetch_sample_data_for_tables = Inr [2::nat],
      json_dumps = (\<lambda>x. Inr ''[]''),
      load_yaml = Inr ''T'',
      join_values = (\<lambda>y. Inr y),
      format_template = (\<lambda>t a b c. Inr (t @ a @ b @ c)),
      print_payload = (\<lambda>p. Inr ()),
      write_prompt = (\<lambda>p. Inr ()),
      count_tokens = (\<lambda>p. Inr 7),
      log_startup_kpis = (\<lambda>m p n. Inr ())\<rparr>"
  have h: "fetch_table_entry_metadata ?bad = Inl (External ''catalog unavailable'')"
    by simp
  have a: "fst (build_master_instructions ?bad) = []"
    using startup_failure_gives_empty_prompt [of ?bad "External ''catalog unavailable''"] h by blast
  have b: "build_master_instructions
     \<lparr>fetch_table_entry_metadata = Inr [1::nat],
      fetch_bigquery_data_profiles = Inr [],
      fetch_sample_data_for_tables = Inr [2],
      json_dumps = (\<lambda>x. Inr ''[]''),
      load_yaml = Inr ''T'',
      join_values = (\<lambda>y. Inr y),
      format_template = (\<lambda>t a b c. Inr (t @ a @ b @ c)),
      print_payload = (\<lambda>p. Inr ()),
      write_prompt = (\<lambda>p. Inl (External ''disk full'')),
      count_tokens = (\<lambda>p. Inr 7),
      log_startup_kpis = (\<lambda>m p n. Inr ())\<rparr>
     = (''T[][][]'', [''Could not save prompt for debugging; continuing execution.''])"
    by (simp add: build_master_instructions_def build_body_def Let_def
          log_prompt_for_debugging_def save_instructions_for_debugging_def)
  from a b show ?thesis by simp
qed

end
